theory Spec2Isabelle
  imports Main
begin

section \<open>Tables of the relational store\<close>

text \<open>
  The tables are the ones created by \<^verbatim>\<open>init_db_logic\<close> in \<^verbatim>\<open>src/app.py\<close>. A table with a
  \<^verbatim>\<open>SERIAL PRIMARY KEY\<close> is a map from the key to the row. Nullable foreign keys are
  options. The columns \<^verbatim>\<open>current_stock\<close> and \<^verbatim>\<open>status\<close> are nullable in the schema, but
  every statement of the source that writes them writes a value (the column default, a
  literal, or a sum with the \<^verbatim>\<open>NOT NULL\<close> quantity), so they are modelled as plain
  values. Dates are day numbers. The \<^verbatim>\<open>created_at\<close> columns are filled by the store and
  never read or written by the handlers modelled here; they are kept as day numbers.
\<close>

record stock_row =
  name :: string
  capacity :: int
  current_stock :: int
  location :: "string option"
  row_status :: string
  row_created_at :: int

record schedule =
  sched_type :: string
  supplier_id :: "int option"
  port_id :: "int option"
  plant_id :: "int option"
  vessel_id :: "int option"
  rake_id :: "int option"
  quantity :: int
  scheduled_date :: int
  status :: string
  created_by :: string
  created_at :: int

record activity =
  user_email :: string
  action :: string
  details :: string

record database =
  ports :: "int \<rightharpoonup> stock_row"
  plants :: "int \<rightharpoonup> stock_row"
  schedules :: "int \<rightharpoonup> schedule"
  user_activities :: "activity list"

text \<open>
  A psycopg2 connection: the committed state of the store, and the state as the open
  transaction of this connection sees it. \<^verbatim>\<open>get_db\<close> hands out one connection per
  request (it is cached in \<^verbatim>\<open>g\<close>), so \<^verbatim>\<open>execute_query\<close> and the handler share it.
\<close>

record connection =
  committed :: database
  pending :: database

definition get_db :: "database \<Rightarrow> connection" where
  "get_db db = \<lparr>committed = db, pending = db\<rparr>"

definition conn_rollback :: "connection \<Rightarrow> connection" where
  "conn_rollback conn = conn\<lparr>pending := committed conn\<rparr>"

section \<open>Storage failures\<close>

text \<open>
  Every call of \<^verbatim>\<open>cur.execute\<close> and \<^verbatim>\<open>conn.commit\<close> can raise. The calls that
  \<^verbatim>\<open>update_schedule_status\<close> makes are named here in program order; a fault pattern
  \<open>fails\<close> says which of them raise because of the store (a lost connection, a lock
  timeout, a serialization failure). A statement can also raise because of its data:
  an \<^verbatim>\<open>INTEGER\<close> column holds 32-bit values and PostgreSQL raises
  \<^verbatim>\<open>integer out of range\<close> instead of wrapping.
\<close>

datatype db_step =
  SelectSchedule
  | UpdatePortStock
  | UpdatePlantStock
  | InsertActivity
  | CommitActivity
  | UpdateScheduleStatus
  | CommitTransaction

datatype outcome = Raised connection | Returned connection

definition and_then :: "outcome \<Rightarrow> (connection \<Rightarrow> outcome) \<Rightarrow> outcome" where
  "and_then r f = (case r of Raised conn \<Rightarrow> Raised conn | Returned conn \<Rightarrow> f conn)"

definition cur_execute ::
  "(db_step \<Rightarrow> bool) \<Rightarrow> db_step \<Rightarrow> (database \<Rightarrow> database option) \<Rightarrow> connection \<Rightarrow> outcome" where
  "cur_execute fails step stmt conn =
     (if fails step then Raised conn
      else case stmt (pending conn) of
             None \<Rightarrow> Raised conn
           | Some db \<Rightarrow> Returned (conn\<lparr>pending := db\<rparr>))"

definition conn_commit :: "(db_step \<Rightarrow> bool) \<Rightarrow> db_step \<Rightarrow> connection \<Rightarrow> outcome" where
  "conn_commit fails step conn =
     (if fails step then Raised conn else Returned (conn\<lparr>committed := pending conn\<rparr>))"

section \<open>The SQL statements of the status transition\<close>

definition int4 :: "int \<Rightarrow> bool" where
  "int4 v = (- 2147483648 \<le> v \<and> v \<le> 2147483647)"

text \<open>
  \<^verbatim>\<open>UPDATE t SET current_stock = <f current_stock> WHERE id = %s\<close>: a \<^verbatim>\<open>NULL\<close> id and
  an id with no row update nothing; a result outside the 32-bit range raises.
\<close>

definition update_current_stock ::
  "(int \<rightharpoonup> stock_row) \<Rightarrow> (int \<Rightarrow> int) \<Rightarrow> int option \<Rightarrow> (int \<rightharpoonup> stock_row) option" where
  "update_current_stock tbl f ident =
     (case ident of
        None \<Rightarrow> Some tbl
      | Some i \<Rightarrow>
          (case tbl i of
             None \<Rightarrow> Some tbl
           | Some r \<Rightarrow>
               if int4 (f (current_stock r))
               then Some (tbl(i \<mapsto> r\<lparr>current_stock := f (current_stock r)\<rparr>))
               else None))"

definition update_ports :: "(int \<Rightarrow> int) \<Rightarrow> int option \<Rightarrow> database \<Rightarrow> database option" where
  "update_ports f ident db =
     (case update_current_stock (ports db) f ident of
        None \<Rightarrow> None
      | Some tbl \<Rightarrow> Some (db\<lparr>ports := tbl\<rparr>))"

definition update_plants :: "(int \<Rightarrow> int) \<Rightarrow> int option \<Rightarrow> database \<Rightarrow> database option" where
  "update_plants f ident db =
     (case update_current_stock (plants db) f ident of
        None \<Rightarrow> None
      | Some tbl \<Rightarrow> Some (db\<lparr>plants := tbl\<rparr>))"

definition insert_activity :: "string \<Rightarrow> string \<Rightarrow> string \<Rightarrow> database \<Rightarrow> database option" where
  "insert_activity u a d db =
     Some (db\<lparr>user_activities :=
       user_activities db @ [\<lparr>user_email = u, action = a, details = d\<rparr>]\<rparr>)"

definition update_status :: "string \<Rightarrow> int \<Rightarrow> database \<Rightarrow> database option" where
  "update_status new_status schedule_id db =
     (case schedules db schedule_id of
        None \<Rightarrow> Some db
      | Some s \<Rightarrow> Some (db\<lparr>schedules := (schedules db)(schedule_id \<mapsto> s\<lparr>status := new_status\<rparr>)\<rparr>))"

section \<open>Helpers of the source\<close>

text \<open>
  \<^verbatim>\<open>execute_query\<close> with no fetch: run the statement on the request's connection, then
  \<^bold>\<open>commit that connection\<close>. \<^verbatim>\<open>log_activity\<close> is such a call.
\<close>

definition execute_query ::
  "(db_step \<Rightarrow> bool) \<Rightarrow> db_step \<Rightarrow> db_step \<Rightarrow> (database \<Rightarrow> database option) \<Rightarrow> connection \<Rightarrow> outcome" where
  "execute_query fails exec_step commit_step stmt conn =
     and_then (cur_execute fails exec_step stmt conn) (conn_commit fails commit_step)"

definition log_activity ::
  "(db_step \<Rightarrow> bool) \<Rightarrow> string \<Rightarrow> string \<Rightarrow> string \<Rightarrow> connection \<Rightarrow> outcome" where
  "log_activity fails u a d conn =
     execute_query fails InsertActivity CommitActivity (insert_activity u a d) conn"

definition can_edit_data :: "string option \<Rightarrow> bool" where
  "can_edit_data user_role = (user_role \<in> set [Some ''admin'', Some ''owner'', Some ''manager''])"

text \<open>Python's \<^verbatim>\<open>str\<close> of an integer, for the f-strings of the messages.\<close>

function str_nat :: "nat \<Rightarrow> string" where
  "str_nat n =
     (if n < 10 then [char_of (48 + n)]
      else str_nat (n div 10) @ [char_of (48 + n mod 10)])"
  by pat_completeness auto
termination
  by (relation "measure (\<lambda>n. n)") auto

declare str_nat.simps [simp del]

definition str_int :: "int \<Rightarrow> string" where
  "str_int i = (if i < 0 then CHR ''-'' # str_nat (nat (- i)) else str_nat (nat i))"

definition quote :: string where
  "quote = [CHR 0x27]"

section \<open>The status transition\<close>

datatype response = Response (success: bool) (message: string) (code: nat)

type_synonym session = "string \<rightharpoonup> string"

definition statuses :: "string list" where
  "statuses = [''scheduled'', ''in-progress'', ''delayed'', ''completed'', ''canceled'']"

text \<open>
  The body of the \<^verbatim>\<open>try\<close> block after the two early returns: the stock statements and the
  activity record of the branch taken, the status write, the commit.
\<close>

definition apply_stock :: "(db_step \<Rightarrow> bool) \<Rightarrow> schedule \<Rightarrow> connection \<Rightarrow> outcome" where
  "apply_stock fails sched conn =
     (if sched_type sched = ''vessel-to-port'' then
        cur_execute fails UpdatePortStock
          (update_ports (\<lambda>current. current + quantity sched) (port_id sched)) conn
      else if sched_type sched = ''port-to-plant'' then
        and_then
          (cur_execute fails UpdatePortStock
             (update_ports (\<lambda>current. current - quantity sched) (port_id sched)) conn)
          (cur_execute fails UpdatePlantStock
             (update_plants (\<lambda>current. current + quantity sched) (plant_id sched)))
      else Returned conn)"

definition write_transition ::
  "(db_step \<Rightarrow> bool) \<Rightarrow> string \<Rightarrow> string \<Rightarrow> int \<Rightarrow> schedule \<Rightarrow> connection \<Rightarrow> outcome" where
  "write_transition fails user new_status schedule_id sched conn =
     and_then
       (and_then
          (if new_status = ''completed'' then
             and_then (apply_stock fails sched conn)
               (log_activity fails user ''update_status''
                  (''Completed schedule #'' @ str_int schedule_id @ '' and updated stock.''))
           else
             log_activity fails user ''update_status''
               (''Updated schedule #'' @ str_int schedule_id @ '' to '' @ quote @ new_status
                  @ quote @ ''.'') conn)
          (cur_execute fails UpdateScheduleStatus (update_status new_status schedule_id)))
       (conn_commit fails CommitTransaction)"

text \<open>The responses of the handler, named after the error taxonomy they stand for.\<close>

definition unauthorized :: response where
  "unauthorized = Response False ''Unauthorized'' 403"

definition invalid_status :: response where
  "invalid_status = Response False ''Invalid status provided.'' 400"

definition not_found :: response where
  "not_found = Response False ''Schedule not found.'' 404"

definition invalid_transition :: "string \<Rightarrow> response" where
  "invalid_transition current = Response False (''Schedule is already '' @ current @ ''.'') 400"

definition internal_error :: response where
  "internal_error = Response False ''An error occurred during the update.'' 500"

definition updated :: "int \<Rightarrow> string \<Rightarrow> response" where
  "updated schedule_id new_status =
     Response True
       (''Schedule #'' @ str_int schedule_id @ '' updated to '' @ quote @ new_status @ quote
          @ ''.'') 200"

text \<open>
  \<^verbatim>\<open>update_schedule_status\<close>. \<open>json_status\<close> is \<^verbatim>\<open>request.json.get('status')\<close>: \<open>None\<close>
  when the key is absent. The second component is the committed state of the store when
  the request ends: an early return leaves the transaction open and the connection is
  closed at teardown, which discards what was not committed.
\<close>

definition update_schedule_status ::
  "(db_step \<Rightarrow> bool) \<Rightarrow> session \<Rightarrow> string option \<Rightarrow> int \<Rightarrow> database \<Rightarrow> response \<times> database" where
  "update_schedule_status fails session json_status schedule_id db =
     (case session ''user'' of
        None \<Rightarrow> (unauthorized, db)
      | Some user \<Rightarrow>
          if \<not> can_edit_data (session ''role'') then (unauthorized, db)
          else
            (case json_status of
               None \<Rightarrow> (invalid_status, db)
             | Some new_status \<Rightarrow>
                 if new_status = [] \<or> new_status \<notin> set statuses
                 then (invalid_status, db)
                 else
                   let conn = get_db db in
                   if fails SelectSchedule
                   then (internal_error, committed (conn_rollback conn))
                   else
                     (case schedules (pending conn) schedule_id of
                        None \<Rightarrow> (not_found, committed conn)
                      | Some sched \<Rightarrow>
                          if status sched \<in> set [''completed'', ''canceled'']
                          then (invalid_transition (status sched), committed conn)
                          else
                            (case write_transition fails user new_status schedule_id sched conn of
                               Raised conn' \<Rightarrow> (internal_error, committed (conn_rollback conn'))
                             | Returned conn' \<Rightarrow>
                                 (updated schedule_id new_status, committed conn')))))"

section \<open>CSV export\<close>

text \<open>
  \<^verbatim>\<open>export_data\<close>. The store answers a query text with the rows it selects (a row is the
  list of its columns and values, as \<^verbatim>\<open>RealDictCursor\<close> returns it) or raises, which the
  handler does not catch. Python's \<^verbatim>\<open>csv.DictWriter\<close> is a library outside the
  repository: \<open>dict_writer\<close> stands for \<^verbatim>\<open>writeheader\<close> followed by \<^verbatim>\<open>writerows\<close>.
  The second component of the result lists the query texts handed to
  \<^verbatim>\<open>execute_query\<close>, in order.
\<close>

type_synonym row = "(string \<times> string) list"

datatype http_response =
  Redirect string
  | Body string nat "(string \<times> string) list"
  | Unhandled

definition export_data ::
  "(string list \<Rightarrow> row list \<Rightarrow> string) \<Rightarrow> (string \<Rightarrow> row list option) \<Rightarrow> session \<Rightarrow> string
     \<Rightarrow> http_response \<times> string list" where
  "export_data dict_writer store session data_type =
     (if session ''user'' = None then (Redirect ''login'', [])
      else if data_type \<notin> set [''schedules'', ''stock_levels'']
      then (Body ''Invalid data type'' 400 [], [])
      else
        let query = ''SELECT * FROM '' @ data_type in
        (case store query of
           None \<Rightarrow> (Unhandled, [query])
         | Some data \<Rightarrow>
             (Body
                (case data of
                   [] \<Rightarrow> []
                 | first # _ \<Rightarrow> dict_writer (map fst first) data)
                200
                [(''Content-Type'', ''text/csv''),
                 (''Content-Disposition'', ''attachment; filename='' @ data_type @ ''.csv'')],
              [query])))"

section \<open>Seed data and concrete requests\<close>

text \<open>
  The rows \<^verbatim>\<open>init_db_logic\<close> inserts into an empty store on day \<open>today\<close>; the serial
  keys count from 1.
\<close>

definition seed_row :: "string \<Rightarrow> int \<Rightarrow> int \<Rightarrow> int \<Rightarrow> stock_row" where
  "seed_row n cap stock today =
     \<lparr>name = n, capacity = cap, current_stock = stock, location = None,
      row_status = ''operational'', row_created_at = today\<rparr>"

definition seed_schedule ::
  "string \<Rightarrow> int option \<Rightarrow> int option \<Rightarrow> int option \<Rightarrow> int option \<Rightarrow> int option \<Rightarrow> int \<Rightarrow> int
     \<Rightarrow> string \<Rightarrow> int \<Rightarrow> schedule" where
  "seed_schedule t su po pl ve ra q day st today =
     \<lparr>sched_type = t, supplier_id = su, port_id = po, plant_id = pl, vessel_id = ve,
      rake_id = ra, quantity = q, scheduled_date = day, status = st, created_by = ''system'',
      created_at = today\<rparr>"

definition init_db_logic :: "int \<Rightarrow> database" where
  "init_db_logic today =
     \<lparr>ports = [1 \<mapsto> seed_row ''Port X'' 10000 5000 today,
               2 \<mapsto> seed_row ''Port Y'' 15000 8000 today],
      plants = [1 \<mapsto> seed_row ''Plant 1'' 5000 2000 today,
                2 \<mapsto> seed_row ''Plant 2'' 7000 3000 today],
      schedules =
        [1 \<mapsto> seed_schedule ''vessel-to-port'' (Some 1) (Some 1) None (Some 1) None 5000
                (today + 5) ''scheduled'' today,
         2 \<mapsto> seed_schedule ''port-to-plant'' (Some 1) (Some 2) (Some 1) None (Some 1) 2000
                (today - 10) ''completed'' today,
         3 \<mapsto> seed_schedule ''vessel-to-port'' (Some 1) (Some 2) None (Some 1) None 7500
                (today + 2) ''in-progress'' today],
      user_activities = []\<rparr>"

text \<open>The session of the seeded manager, and a store on which no statement raises.\<close>

definition manager_session :: session where
  "manager_session = [''user'' \<mapsto> ''manager@example.com'', ''role'' \<mapsto> ''manager'']"

definition no_fault :: "db_step \<Rightarrow> bool" where
  "no_fault step = False"

definition fault_at :: "db_step \<Rightarrow> db_step \<Rightarrow> bool" where
  "fault_at failing step = (step = failing)"

text \<open>The bound the specification asks of a port or plant row.\<close>

definition within_capacity :: "stock_row \<Rightarrow> bool" where
  "within_capacity r = (0 \<le> current_stock r \<and> current_stock r \<le> capacity r)"

definition table_bounded :: "(int \<rightharpoonup> stock_row) \<Rightarrow> bool" where
  "table_bounded tbl = (\<forall>i r. tbl i = Some r \<longrightarrow> within_capacity r)"

definition stock_bounded :: "database \<Rightarrow> bool" where
  "stock_bounded db = (table_bounded (ports db) \<and> table_bounded (plants db))"

text \<open>
  The stock a completion would write stays within the bound: the condition the handler
  never checks.
\<close>

definition fits :: "(int \<rightharpoonup> stock_row) \<Rightarrow> int option \<Rightarrow> int \<Rightarrow> bool" where
  "fits tbl ident delta =
     (case ident of
        None \<Rightarrow> True
      | Some i \<Rightarrow>
          (case tbl i of
             None \<Rightarrow> True
           | Some r \<Rightarrow> 0 \<le> current_stock r + delta \<and> current_stock r + delta \<le> capacity r))"

definition completion_fits :: "database \<Rightarrow> schedule \<Rightarrow> bool" where
  "completion_fits db s =
     (if sched_type s = ''vessel-to-port'' then fits (ports db) (port_id s) (quantity s)
      else if sched_type s = ''port-to-plant''
      then fits (ports db) (port_id s) (- quantity s) \<and> fits (plants db) (plant_id s) (quantity s)
      else True)"

text \<open>
  The seeded store after four more schedules were created through \<^verbatim>\<open>create_schedule\<close>,
  which stores the submitted type and references as they are (a field left out of the
  form is \<^verbatim>\<open>NULL\<close>): schedule 4 moves 2000 from Port Y to Plant 1, schedule 5 has a
  type the transition does not know, schedule 6 is a port-to-plant schedule with no
  port, schedule 7 a vessel-to-port schedule with no port.
\<close>

definition created_schedule ::
  "string \<Rightarrow> int option \<Rightarrow> int option \<Rightarrow> int \<Rightarrow> string \<Rightarrow> schedule" where
  "created_schedule t po pl q st =
     \<lparr>sched_type = t, supplier_id = Some 1, port_id = po, plant_id = pl, vessel_id = None,
      rake_id = Some 1, quantity = q, scheduled_date = 3, status = st,
      created_by = ''manager@example.com'', created_at = 0\<rparr>"

definition example_db :: database where
  "example_db =
     (init_db_logic 0)\<lparr>schedules := (schedules (init_db_logic 0))
        (4 \<mapsto> created_schedule ''port-to-plant'' (Some 2) (Some 1) 2000 ''scheduled'',
         5 \<mapsto> created_schedule ''plant-to-port'' (Some 1) (Some 2) 100 ''delayed'',
         6 \<mapsto> created_schedule ''port-to-plant'' None (Some 1) 2000 ''scheduled'',
         7 \<mapsto> created_schedule ''vessel-to-port'' None None 300 ''scheduled'')\<rparr>"

text \<open>
  A writer and a store for a concrete export request. The writer is what
  \<^verbatim>\<open>csv.DictWriter\<close> with its default dialect writes for rows whose values are text:
  the cells of a line in the order of the field names, separated by commas, a cell
  holding a comma, a double quote or a line break quoted with its double quotes doubled,
  a line made of one empty cell written as two double quotes, every line ended by CR LF.
\<close>

fun comma_join :: "string list \<Rightarrow> string" where
  "comma_join [] = []"
| "comma_join [cell] = cell"
| "comma_join (cell # cells) = cell @ '','' @ comma_join cells"

definition csv_field :: "string \<Rightarrow> string" where
  "csv_field cell =
     (if list_ex (\<lambda>ch. ch \<in> set [CHR '','', CHR 0x22, CHR 0x0D, CHR 0x0A]) cell
      then [CHR 0x22]
             @ concat (map (\<lambda>ch. if ch = CHR 0x22 then [CHR 0x22, CHR 0x22] else [ch]) cell)
             @ [CHR 0x22]
      else cell)"

definition csv_record :: "string list \<Rightarrow> string" where
  "csv_record cells =
     (if cells \<noteq> [] \<and> comma_join (map csv_field cells) = [] then [CHR 0x22, CHR 0x22]
      else comma_join (map csv_field cells)) @ [CHR 0x0D, CHR 0x0A]"

definition example_writer :: "string list \<Rightarrow> row list \<Rightarrow> string" where
  "example_writer fieldnames rows =
     concat (map csv_record
       (fieldnames
        # map (\<lambda>r. map (\<lambda>f. case map_of r f of None \<Rightarrow> [] | Some v \<Rightarrow> v) fieldnames) rows))"

definition example_store :: "string \<Rightarrow> row list option" where
  "example_store query =
     (if query = ''SELECT * FROM schedules''
      then Some [[(''id'', ''1''), (''status'', ''scheduled'')]]
      else None)"

section \<open>The handler, step by step\<close>

lemma empty_not_status: "[] \<notin> set statuses"
  by (simp add: statuses_def)

lemma valid_status_iff:
  "(js \<in> set (map Some statuses)) = (\<exists>ns. js = Some ns \<and> ns \<noteq> [] \<and> ns \<in> set statuses)"
  using empty_not_status by auto

lemma log_activity_eq:
  "log_activity fails u a d conn =
     (if fails InsertActivity then Raised conn
      else if fails CommitActivity
        then Raised (conn\<lparr>pending := (pending conn)\<lparr>user_activities :=
               user_activities (pending conn) @ [\<lparr>user_email = u, action = a, details = d\<rparr>]\<rparr>\<rparr>)
        else Returned
               \<lparr>committed = (pending conn)\<lparr>user_activities :=
                  user_activities (pending conn) @ [\<lparr>user_email = u, action = a, details = d\<rparr>]\<rparr>,
                pending = (pending conn)\<lparr>user_activities :=
                  user_activities (pending conn) @ [\<lparr>user_email = u, action = a, details = d\<rparr>]\<rparr>\<rparr>)"
  by (simp add: log_activity_def execute_query_def and_then_def cur_execute_def conn_commit_def
      insert_activity_def)

lemma and_then_Returned:
  "and_then r f = Returned c \<Longrightarrow> \<exists>c0. r = Returned c0 \<and> f c0 = Returned c"
  by (cases r) (simp_all add: and_then_def)

lemma handler_cases:
  "update_schedule_status fails session js sid db =
     (case session ''user'' of
        None \<Rightarrow> (unauthorized, db)
      | Some u \<Rightarrow>
          if \<not> can_edit_data (session ''role'') then (unauthorized, db)
          else if js \<notin> set (map Some statuses) then (invalid_status, db)
          else if fails SelectSchedule then (internal_error, db)
          else
            (case schedules db sid of
               None \<Rightarrow> (not_found, db)
             | Some s \<Rightarrow>
                 if status s \<in> set [''completed'', ''canceled'']
                 then (invalid_transition (status s), db)
                 else
                   (case write_transition fails u (the js) sid s (get_db db) of
                      Raised c \<Rightarrow> (internal_error, committed c)
                    | Returned c \<Rightarrow> (updated sid (the js), committed c))))"
  unfolding valid_status_iff
  by (simp add: update_schedule_status_def get_db_def conn_rollback_def Let_def
      split: option.split outcome.split)

lemma handler_state:
  "snd (update_schedule_status fails session js sid db) = db
   \<or> (\<exists>s u c. schedules db sid = Some s \<and> js \<in> set (map Some statuses)
      \<and> (write_transition fails u (the js) sid s (get_db db) = Raised c
         \<or> write_transition fails u (the js) sid s (get_db db) = Returned c)
      \<and> snd (update_schedule_status fails session js sid db) = committed c)"
proof (cases "session ''user''")
  case None
  then show ?thesis by (simp add: handler_cases)
next
  case (Some u)
  show ?thesis
  proof (cases "schedules db sid")
    case None
    with Some show ?thesis by (simp add: handler_cases)
  next
    case (Some s)
    show ?thesis
    proof (cases "write_transition fails u (the js) sid s (get_db db)")
      case (Raised c)
      with Some \<open>session ''user'' = Some u\<close> show ?thesis
        by (simp add: handler_cases) blast
    next
      case (Returned c)
      with Some \<open>session ''user'' = Some u\<close> show ?thesis
        by (simp add: handler_cases) blast
    qed
  qed
qed

lemmas response_defs =
  unauthorized_def invalid_status_def not_found_def invalid_transition_def internal_error_def
  updated_def

lemma success_returned:
  assumes "update_schedule_status fails session js sid db = (resp, db')"
    and "success resp" and "schedules db sid = Some s"
  shows "\<exists>u ns c. js = Some ns \<and> write_transition fails u ns sid s (get_db db) = Returned c
           \<and> db' = committed c"
  using assms
  by (auto simp: handler_cases response_defs valid_status_iff
      split: option.splits if_splits outcome.splits) blast

lemma write_transition_other:
  assumes "ns \<noteq> ''completed''" and "schedules db sid = Some s"
  shows "case write_transition fails u ns sid s (get_db db) of
           Raised c \<Rightarrow>
             ports (committed c) = ports db \<and> plants (committed c) = plants db
             \<and> schedules (committed c) = schedules db
         | Returned c \<Rightarrow>
             ports (committed c) = ports db \<and> plants (committed c) = plants db
             \<and> schedules (committed c) = (schedules db)(sid \<mapsto> s\<lparr>status := ns\<rparr>)"
  using assms
  by (simp add: write_transition_def log_activity_eq and_then_def cur_execute_def conn_commit_def
      update_status_def get_db_def)

lemma apply_stock_frame:
  "case apply_stock fails s conn of
     Raised c \<Rightarrow> committed c = committed conn
   | Returned c \<Rightarrow>
       committed c = committed conn \<and> schedules (pending c) = schedules (pending conn)"
  by (simp add: apply_stock_def and_then_def cur_execute_def update_ports_def update_plants_def
      split: option.split)

lemma apply_stock_other:
  assumes "sched_type s \<notin> set [''vessel-to-port'', ''port-to-plant'']"
  shows "apply_stock fails s conn = Returned conn"
  using assms by (simp add: apply_stock_def)

lemma cur_execute_ports:
  assumes "cur_execute fails st (update_ports f ident) conn = Returned c"
  shows "\<exists>tbl. update_current_stock (ports (pending conn)) f ident = Some tbl
           \<and> pending c = (pending conn)\<lparr>ports := tbl\<rparr>"
  using assms
  by (auto simp: cur_execute_def update_ports_def split: if_splits option.splits)

lemma cur_execute_plants:
  assumes "cur_execute fails st (update_plants f ident) conn = Returned c"
  shows "\<exists>tbl. update_current_stock (plants (pending conn)) f ident = Some tbl
           \<and> pending c = (pending conn)\<lparr>plants := tbl\<rparr>"
  using assms
  by (auto simp: cur_execute_def update_plants_def split: if_splits option.splits)

lemma update_current_stock_Some:
  assumes "update_current_stock tbl f ident = Some tbl'"
  shows "tbl' =
    (case ident of
       None \<Rightarrow> tbl
     | Some i \<Rightarrow>
         (case tbl i of
            None \<Rightarrow> tbl
          | Some r \<Rightarrow> tbl(i \<mapsto> r\<lparr>current_stock := f (current_stock r)\<rparr>)))"
  using assms
  by (auto simp: update_current_stock_def split: option.splits if_splits)

lemma apply_stock_vessel:
  assumes type: "sched_type s = ''vessel-to-port''"
    and ret: "apply_stock fails s conn = Returned c"
  shows "ports (pending c) =
           (case port_id s of
              None \<Rightarrow> ports (pending conn)
            | Some p \<Rightarrow>
                (case ports (pending conn) p of
                   None \<Rightarrow> ports (pending conn)
                 | Some pr \<Rightarrow>
                     (ports (pending conn))
                       (p \<mapsto> pr\<lparr>current_stock := current_stock pr + quantity s\<rparr>)))
         \<and> plants (pending c) = plants (pending conn)"
proof -
  from type ret have "cur_execute fails UpdatePortStock
      (update_ports (\<lambda>current. current + quantity s) (port_id s)) conn = Returned c"
    by (simp add: apply_stock_def)
  then obtain tbl where
    tbl: "update_current_stock (ports (pending conn)) (\<lambda>current. current + quantity s)
            (port_id s) = Some tbl"
    and c: "pending c = (pending conn)\<lparr>ports := tbl\<rparr>"
    using cur_execute_ports by blast
  from update_current_stock_Some [OF tbl] c show ?thesis by simp
qed

lemma apply_stock_plant:
  assumes type: "sched_type s = ''port-to-plant''"
    and ret: "apply_stock fails s conn = Returned c"
  shows "ports (pending c) =
           (case port_id s of
              None \<Rightarrow> ports (pending conn)
            | Some p \<Rightarrow>
                (case ports (pending conn) p of
                   None \<Rightarrow> ports (pending conn)
                 | Some pr \<Rightarrow>
                     (ports (pending conn))
                       (p \<mapsto> pr\<lparr>current_stock := current_stock pr - quantity s\<rparr>)))
         \<and> plants (pending c) =
           (case plant_id s of
              None \<Rightarrow> plants (pending conn)
            | Some q \<Rightarrow>
                (case plants (pending conn) q of
                   None \<Rightarrow> plants (pending conn)
                 | Some plr \<Rightarrow>
                     (plants (pending conn))
                       (q \<mapsto> plr\<lparr>current_stock := current_stock plr + quantity s\<rparr>)))"
proof -
  from type ret have "and_then
      (cur_execute fails UpdatePortStock
         (update_ports (\<lambda>current. current - quantity s) (port_id s)) conn)
      (cur_execute fails UpdatePlantStock
         (update_plants (\<lambda>current. current + quantity s) (plant_id s))) = Returned c"
    by (simp add: apply_stock_def)
  then obtain c0 where
    c0: "cur_execute fails UpdatePortStock
           (update_ports (\<lambda>current. current - quantity s) (port_id s)) conn = Returned c0"
    and c1: "cur_execute fails UpdatePlantStock
           (update_plants (\<lambda>current. current + quantity s) (plant_id s)) c0 = Returned c"
    using and_then_Returned by blast
  from c0 obtain tbl where
    tbl: "update_current_stock (ports (pending conn)) (\<lambda>current. current - quantity s)
            (port_id s) = Some tbl"
    and p0: "pending c0 = (pending conn)\<lparr>ports := tbl\<rparr>"
    using cur_execute_ports by blast
  from c1 obtain tbl' where
    tbl': "update_current_stock (plants (pending c0)) (\<lambda>current. current + quantity s)
            (plant_id s) = Some tbl'"
    and p1: "pending c = (pending c0)\<lparr>plants := tbl'\<rparr>"
    using cur_execute_plants by blast
  from tbl' p0 have "update_current_stock (plants (pending conn))
      (\<lambda>current. current + quantity s) (plant_id s) = Some tbl'"
    by simp
  from update_current_stock_Some [OF tbl] update_current_stock_Some [OF this] p0 p1
  show ?thesis by simp
qed

lemma update_current_stock_bounded:
  assumes "update_current_stock tbl f ident = Some tbl'"
    and "table_bounded tbl" and "fits tbl ident d" and "\<And>current. f current = current + d"
  shows "table_bounded tbl'"
  using assms
  by (auto simp: update_current_stock_def table_bounded_def fits_def within_capacity_def
      split: option.splits if_splits)

lemma apply_stock_bounded:
  assumes ret: "apply_stock fails s conn = Returned c"
    and bounded: "stock_bounded (pending conn)" and fit: "completion_fits (pending conn) s"
  shows "table_bounded (ports (pending c)) \<and> table_bounded (plants (pending c))"
proof -
  from bounded have bports: "table_bounded (ports (pending conn))"
    and bplants: "table_bounded (plants (pending conn))"
    by (simp_all add: stock_bounded_def)
  consider (vessel) "sched_type s = ''vessel-to-port''"
    | (plant) "sched_type s \<noteq> ''vessel-to-port''" "sched_type s = ''port-to-plant''"
    | (other) "sched_type s \<noteq> ''vessel-to-port''" "sched_type s \<noteq> ''port-to-plant''"
    by blast
  then show ?thesis
  proof cases
    case vessel
    with ret have "cur_execute fails UpdatePortStock
        (update_ports (\<lambda>current. current + quantity s) (port_id s)) conn = Returned c"
      by (simp add: apply_stock_def)
    then obtain tbl where
      tbl: "update_current_stock (ports (pending conn)) (\<lambda>current. current + quantity s)
              (port_id s) = Some tbl"
      and c: "pending c = (pending conn)\<lparr>ports := tbl\<rparr>"
      using cur_execute_ports by blast
    from fit vessel have "fits (ports (pending conn)) (port_id s) (quantity s)"
      by (simp add: completion_fits_def)
    with tbl bports have "table_bounded tbl"
      by (rule update_current_stock_bounded) simp
    with c bplants show ?thesis by simp
  next
    case plant
    from ret plant(2) have "and_then
        (cur_execute fails UpdatePortStock
           (update_ports (\<lambda>current. current - quantity s) (port_id s)) conn)
        (cur_execute fails UpdatePlantStock
           (update_plants (\<lambda>current. current + quantity s) (plant_id s))) = Returned c"
      by (simp add: apply_stock_def)
    then obtain c0 where
      c0: "cur_execute fails UpdatePortStock
             (update_ports (\<lambda>current. current - quantity s) (port_id s)) conn = Returned c0"
      and c1: "cur_execute fails UpdatePlantStock
             (update_plants (\<lambda>current. current + quantity s) (plant_id s)) c0 = Returned c"
      using and_then_Returned by blast
    from c0 obtain tbl where
      tbl: "update_current_stock (ports (pending conn)) (\<lambda>current. current - quantity s)
              (port_id s) = Some tbl"
      and p0: "pending c0 = (pending conn)\<lparr>ports := tbl\<rparr>"
      using cur_execute_ports by blast
    from c1 obtain tbl' where
      tbl': "update_current_stock (plants (pending c0)) (\<lambda>current. current + quantity s)
              (plant_id s) = Some tbl'"
      and p1: "pending c = (pending c0)\<lparr>plants := tbl'\<rparr>"
      using cur_execute_plants by blast
    from fit plant have f1: "fits (ports (pending conn)) (port_id s) (- quantity s)"
      and f2: "fits (plants (pending conn)) (plant_id s) (quantity s)"
      by (simp_all add: completion_fits_def)
    from tbl bports f1 have b1: "table_bounded tbl"
      by (rule update_current_stock_bounded) simp
    from tbl' p0 have "update_current_stock (plants (pending conn))
        (\<lambda>current. current + quantity s) (plant_id s) = Some tbl'"
      by simp
    from this bplants f2 have b2: "table_bounded tbl'"
      by (rule update_current_stock_bounded) simp
    from b1 b2 p0 p1 show ?thesis by simp
  next
    case other
    with ret have "c = conn" by (simp add: apply_stock_def)
    with bports bplants show ?thesis by simp
  qed
qed

lemma write_transition_completed:
  assumes "schedules db sid = Some s"
  shows "case write_transition fails u ''completed'' sid s (get_db db) of
           Raised c \<Rightarrow>
             schedules (committed c) = schedules db
             \<and> ((ports (committed c) = ports db \<and> plants (committed c) = plants db)
                \<or> (\<exists>c1. apply_stock fails s (get_db db) = Returned c1
                     \<and> ports (committed c) = ports (pending c1)
                     \<and> plants (committed c) = plants (pending c1)))
         | Returned c \<Rightarrow>
             schedules (committed c) = (schedules db)(sid \<mapsto> s\<lparr>status := ''completed''\<rparr>)
             \<and> (\<exists>c1. apply_stock fails s (get_db db) = Returned c1
                   \<and> ports (committed c) = ports (pending c1)
                   \<and> plants (committed c) = plants (pending c1))"
proof (cases "apply_stock fails s (get_db db)")
  case (Raised c0)
  with apply_stock_frame [where fails = fails and s = s and conn = "get_db db"] have "committed c0 = db"
    by (simp add: get_db_def)
  with Raised show ?thesis
    by (simp add: write_transition_def and_then_def)
next
  case (Returned c1)
  with apply_stock_frame [where fails = fails and s = s and conn = "get_db db"]
  have "committed c1 = db" and "schedules (pending c1) = schedules db"
    by (simp_all add: get_db_def)
  with Returned assms show ?thesis
    by (simp add: write_transition_def log_activity_eq and_then_def cur_execute_def
        conn_commit_def update_status_def)
qed

lemmas eval_defs =
  update_schedule_status_def write_transition_def apply_stock_def log_activity_def
  execute_query_def and_then_def cur_execute_def conn_commit_def conn_rollback_def get_db_def
  update_ports_def update_plants_def update_current_stock_def insert_activity_def
  update_status_def Let_def statuses_def int4_def can_edit_data_def manager_session_def
  no_fault_def fault_at_def init_db_logic_def example_db_def seed_row_def seed_schedule_def
  created_schedule_def

section \<open>The claims\<close>

subsection \<open>C1\<close>

text \<open>
  Claim C1 (the completion is one atomic unit: a failure partway leaves the status and
  every stock counter unchanged and gives InternalError). The handler rolls back in its
  \<^verbatim>\<open>except\<close> branch, but \<^verbatim>\<open>log_activity\<close> has already committed the connection the
  stock statements ran on. On the seeded store, completing schedule 1 (vessel-to-port,
  5000, Port X at 5000) with the status write raising answers 500, leaves the schedule
  \<^verbatim>\<open>scheduled\<close>, and leaves Port X at 10000: the stock change is kept without the status
  change.
\<close>

theorem update_status_failure_keeps_stock:
  "fst (update_schedule_status (fault_at UpdateScheduleStatus) manager_session
          (Some ''completed'') 1 (init_db_logic 0)) = internal_error
   \<and> map_option current_stock (ports (init_db_logic 0) 1) = Some 5000
   \<and> map_option current_stock
        (ports (snd (update_schedule_status (fault_at UpdateScheduleStatus) manager_session
          (Some ''completed'') 1 (init_db_logic 0))) 1) = Some 10000
   \<and> map_option status
        (schedules (snd (update_schedule_status (fault_at UpdateScheduleStatus) manager_session
          (Some ''completed'') 1 (init_db_logic 0))) 1) = Some ''scheduled''"
  by (simp add: eval_defs)

subsection \<open>C2\<close>

text \<open>
  Claim C2, as amended (a schedule whose status is \<^verbatim>\<open>completed\<close> or \<^verbatim>\<open>canceled\<close>
  rejects every transition and nothing changes). Whatever the session, the requested
  status and the faults, the store is left as it was. For a caller who may edit, with
  the lookup not raising, the answer is InvalidTransition when the requested status is
  one of the five recognized values (the current one included), and InvalidStatus
  otherwise: the handler validates the requested status before it looks the schedule up.
\<close>

theorem terminal_rejected:
  assumes "schedules db sid = Some s" and "status s \<in> set [''completed'', ''canceled'']"
  shows "snd (update_schedule_status fails session js sid db) = db
     \<and> (session ''user'' \<noteq> None \<and> can_edit_data (session ''role'') \<and> \<not> fails SelectSchedule
        \<longrightarrow> fst (update_schedule_status fails session js sid db)
              = (if js \<in> set (map Some statuses) then invalid_transition (status s)
                 else invalid_status))"
  using assms by (cases "session ''user''") (simp_all add: handler_cases)

theorem terminal_rejected_witness:
  "map_option status (schedules (init_db_logic 0) 2) = Some ''completed''
   \<and> update_schedule_status no_fault manager_session (Some ''in-progress'') 2 (init_db_logic 0)
       = (invalid_transition ''completed'', init_db_logic 0)
   \<and> update_schedule_status no_fault manager_session (Some ''completed'') 2 (init_db_logic 0)
       = (invalid_transition ''completed'', init_db_logic 0)
   \<and> update_schedule_status no_fault manager_session (Some ''bogus'') 2 (init_db_logic 0)
       = (invalid_status, init_db_logic 0)"
proof -
  let ?s = "seed_schedule ''port-to-plant'' (Some 1) (Some 2) (Some 1) None (Some 1) 2000 (0 - 10)
              ''completed'' 0"
  have sched: "schedules (init_db_logic 0) 2 = Some ?s"
    by (simp add: init_db_logic_def)
  have terminal: "status ?s \<in> set [''completed'', ''canceled'']"
    by (simp add: seed_schedule_def)
  have session: "manager_session ''user'' \<noteq> None" "can_edit_data (manager_session ''role'')"
    "\<not> no_fault SelectSchedule"
    by (simp_all add: manager_session_def can_edit_data_def no_fault_def)
  note rejected =
    terminal_rejected [where fails = no_fault and session = manager_session,
      OF sched terminal]
  from rejected [of "Some ''in-progress''"] rejected [of "Some ''completed''"]
    rejected [of "Some ''bogus''"] sched session
  show ?thesis
    by (simp add: statuses_def seed_schedule_def prod_eq_iff)
qed

text \<open>
  Claim C2 as stated fails: on the seeded store schedule 2 is \<^verbatim>\<open>completed\<close>, and the
  request for the unrecognized status \<^verbatim>\<open>bogus\<close> is answered with InvalidStatus, not
  InvalidTransition.
\<close>

theorem terminal_invalid_status_counterexample:
  "map_option status (schedules (init_db_logic 0) 2) = Some ''completed''
   \<and> fst (update_schedule_status no_fault manager_session (Some ''bogus'') 2 (init_db_logic 0))
       = invalid_status
   \<and> invalid_status \<noteq> invalid_transition ''completed''"
  by (simp add: eval_defs response_defs)

subsection \<open>C3\<close>

text \<open>
  Claim C3, as amended (a successful completion of a port-to-plant schedule of quantity Q
  takes Q from the referenced port and adds Q to the referenced plant; the sum of the
  pair is unchanged and no other stock changes). For every port-to-plant schedule, a
  successful completion leaves the port table as it was but for the row the schedule
  references, whose stock is Q less, and the plant table as it was but for the row the
  schedule references, whose stock is Q more. The two updates are independent: a side
  whose reference is \<^verbatim>\<open>NULL\<close> or has no row is left out, and the other side is still
  applied. When both rows exist the sum of the pair is unchanged. A successful answer
  is only given for a schedule that was not terminal.
\<close>

theorem complete_port_to_plant:
  assumes sched: "schedules db sid = Some s" and type: "sched_type s = ''port-to-plant''"
    and res: "update_schedule_status fails session (Some ''completed'') sid db = (resp, db')"
    and ok: "success resp"
  shows "ports db' =
           (case port_id s of
              None \<Rightarrow> ports db
            | Some p \<Rightarrow>
                (case ports db p of
                   None \<Rightarrow> ports db
                 | Some pr \<Rightarrow>
                     (ports db)(p \<mapsto> pr\<lparr>current_stock := current_stock pr - quantity s\<rparr>)))
     \<and> plants db' =
           (case plant_id s of
              None \<Rightarrow> plants db
            | Some q \<Rightarrow>
                (case plants db q of
                   None \<Rightarrow> plants db
                 | Some plr \<Rightarrow>
                     (plants db)(q \<mapsto> plr\<lparr>current_stock := current_stock plr + quantity s\<rparr>)))
     \<and> (\<forall>p q pr plr.
          port_id s = Some p \<and> plant_id s = Some q \<and> ports db p = Some pr
            \<and> plants db q = Some plr
          \<longrightarrow> current_stock (the (ports db' p)) + current_stock (the (plants db' q))
                = current_stock pr + current_stock plr)"
proof -
  from success_returned [OF res ok sched] obtain u c where
    c: "write_transition fails u ''completed'' sid s (get_db db) = Returned c"
    and db': "db' = committed c"
    by auto
  from write_transition_completed [OF sched, of fails u] c obtain c1 where
    c1: "apply_stock fails s (get_db db) = Returned c1"
    and tables: "ports (committed c) = ports (pending c1)" "plants (committed c) = plants (pending c1)"
    by auto
  have pend: "pending (get_db db) = db"
    by (simp add: get_db_def)
  from apply_stock_plant [OF type c1, unfolded pend] tables db'
  have ports: "ports db' =
           (case port_id s of
              None \<Rightarrow> ports db
            | Some p \<Rightarrow>
                (case ports db p of
                   None \<Rightarrow> ports db
                 | Some pr \<Rightarrow>
                     (ports db)(p \<mapsto> pr\<lparr>current_stock := current_stock pr - quantity s\<rparr>)))"
    and plants: "plants db' =
           (case plant_id s of
              None \<Rightarrow> plants db
            | Some q \<Rightarrow>
                (case plants db q of
                   None \<Rightarrow> plants db
                 | Some plr \<Rightarrow>
                     (plants db)(q \<mapsto> plr\<lparr>current_stock := current_stock plr + quantity s\<rparr>)))"
    by simp_all
  have "current_stock (the (ports db' p)) + current_stock (the (plants db' q))
          = current_stock pr + current_stock plr"
    if "port_id s = Some p" and "plant_id s = Some q" and "ports db p = Some pr"
      and "plants db q = Some plr" for p q pr plr
    using that ports plants by simp
  with ports plants show ?thesis by blast
qed

theorem complete_port_to_plant_witness:
  "schedules example_db 4
     = Some (created_schedule ''port-to-plant'' (Some 2) (Some 1) 2000 ''scheduled'')
   \<and> map_option current_stock (ports example_db 2) = Some 8000
   \<and> map_option current_stock (plants example_db 1) = Some 2000
   \<and> success (fst (update_schedule_status no_fault manager_session (Some ''completed'') 4
        example_db))
   \<and> ports (snd (update_schedule_status no_fault manager_session (Some ''completed'') 4
        example_db))
       = (ports example_db)(2 \<mapsto> seed_row ''Port Y'' 15000 6000 0)
   \<and> plants (snd (update_schedule_status no_fault manager_session (Some ''completed'') 4
        example_db))
       = (plants example_db)(1 \<mapsto> seed_row ''Plant 1'' 5000 4000 0)"
proof -
  let ?r = "update_schedule_status no_fault manager_session (Some ''completed'') 4 example_db"
  let ?s = "created_schedule ''port-to-plant'' (Some 2) (Some 1) 2000 ''scheduled''"
  have sched: "schedules example_db 4 = Some ?s"
    by (simp add: example_db_def)
  have port: "ports example_db 2 = Some (seed_row ''Port Y'' 15000 8000 0)"
    and plant: "plants example_db 1 = Some (seed_row ''Plant 1'' 5000 2000 0)"
    by (simp_all add: example_db_def init_db_logic_def)
  have cols: "sched_type ?s = ''port-to-plant''" "port_id ?s = Some 2" "plant_id ?s = Some 1"
    "quantity ?s = 2000"
    by (simp_all add: created_schedule_def)
  have ok: "success (fst ?r)"
    by (simp add: eval_defs response_defs)
  have "?r = (fst ?r, snd ?r)" by simp
  from complete_port_to_plant [OF sched cols(1) this ok] sched port plant ok cols
  show ?thesis
    by (simp add: seed_row_def)
qed

text \<open>
  Claim C3 as stated fails: schedule 6 of the example store is a port-to-plant schedule of
  2000 that is not terminal and names Plant 1 but no port. Its completion succeeds, adds
  2000 to Plant 1 and leaves every port as it was: no port stock is decreased and the
  total stock grows by 2000.
\<close>

theorem port_to_plant_one_sided_counterexample:
  "schedules example_db 6
     = Some (created_schedule ''port-to-plant'' None (Some 1) 2000 ''scheduled'')
   \<and> success (fst (update_schedule_status no_fault manager_session (Some ''completed'') 6
        example_db))
   \<and> ports (snd (update_schedule_status no_fault manager_session (Some ''completed'') 6
        example_db)) = ports example_db
   \<and> map_option current_stock (plants example_db 1) = Some 2000
   \<and> map_option current_stock
        (plants (snd (update_schedule_status no_fault manager_session (Some ''completed'') 6
          example_db)) 1) = Some 4000"
  by (simp add: eval_defs response_defs)

subsection \<open>C4\<close>

text \<open>
  Claim C4 (a successful completion of a vessel-to-port schedule of quantity Q adds
  exactly Q to the referenced port, sets the status to \<^verbatim>\<open>completed\<close>, and changes no
  other stock). For every vessel-to-port schedule, after a successful completion the
  port table is the old one but for the row the schedule references, whose stock is Q
  more (the old one as it is when the reference is \<^verbatim>\<open>NULL\<close> or has no row), the plant
  table is the old one, and the schedule table is the old one with the status of this
  schedule written.
\<close>

theorem complete_vessel_to_port:
  assumes sched: "schedules db sid = Some s" and type: "sched_type s = ''vessel-to-port''"
    and res: "update_schedule_status fails session (Some ''completed'') sid db = (resp, db')"
    and ok: "success resp"
  shows "ports db' =
           (case port_id s of
              None \<Rightarrow> ports db
            | Some p \<Rightarrow>
                (case ports db p of
                   None \<Rightarrow> ports db
                 | Some pr \<Rightarrow>
                     (ports db)(p \<mapsto> pr\<lparr>current_stock := current_stock pr + quantity s\<rparr>)))
     \<and> plants db' = plants db
     \<and> schedules db' = (schedules db)(sid \<mapsto> s\<lparr>status := ''completed''\<rparr>)"
proof -
  from success_returned [OF res ok sched] obtain u c where
    c: "write_transition fails u ''completed'' sid s (get_db db) = Returned c"
    and db': "db' = committed c"
    by auto
  from write_transition_completed [OF sched, of fails u] c obtain c1 where
    c1: "apply_stock fails s (get_db db) = Returned c1"
    and tables: "ports (committed c) = ports (pending c1)" "plants (committed c) = plants (pending c1)"
    and written: "schedules (committed c) = (schedules db)(sid \<mapsto> s\<lparr>status := ''completed''\<rparr>)"
    by auto
  have pend: "pending (get_db db) = db"
    by (simp add: get_db_def)
  from apply_stock_vessel [OF type c1, unfolded pend] tables written db' show ?thesis
    by simp
qed

theorem complete_vessel_to_port_witness:
  "map_option status (schedules (init_db_logic 0) 1) = Some ''scheduled''
   \<and> map_option current_stock (ports (init_db_logic 0) 1) = Some 5000
   \<and> success (fst (update_schedule_status no_fault manager_session (Some ''completed'') 1
        (init_db_logic 0)))
   \<and> ports (snd (update_schedule_status no_fault manager_session (Some ''completed'') 1
          (init_db_logic 0)))
       = (ports (init_db_logic 0))(1 \<mapsto> seed_row ''Port X'' 10000 10000 0)
   \<and> plants (snd (update_schedule_status no_fault manager_session (Some ''completed'') 1
          (init_db_logic 0))) = plants (init_db_logic 0)
   \<and> map_option status
        (schedules (snd (update_schedule_status no_fault manager_session (Some ''completed'') 1
          (init_db_logic 0))) 1) = Some ''completed''
   \<and> schedules example_db 7
       = Some (created_schedule ''vessel-to-port'' None None 300 ''scheduled'')
   \<and> success (fst (update_schedule_status no_fault manager_session (Some ''completed'') 7
        example_db))
   \<and> ports (snd (update_schedule_status no_fault manager_session (Some ''completed'') 7
        example_db)) = ports example_db
   \<and> plants (snd (update_schedule_status no_fault manager_session (Some ''completed'') 7
        example_db)) = plants example_db
   \<and> schedules (snd (update_schedule_status no_fault manager_session (Some ''completed'') 7
        example_db)) 7
       = Some (created_schedule ''vessel-to-port'' None None 300 ''completed'')"
proof -
  let ?r = "update_schedule_status no_fault manager_session (Some ''completed'') 1
              (init_db_logic 0)"
  let ?s = "seed_schedule ''vessel-to-port'' (Some 1) (Some 1) None (Some 1) None 5000 (0 + 5)
              ''scheduled'' 0"
  let ?r' = "update_schedule_status no_fault manager_session (Some ''completed'') 7 example_db"
  let ?s' = "created_schedule ''vessel-to-port'' None None 300 ''scheduled''"
  have sched: "schedules (init_db_logic 0) 1 = Some ?s"
    and port: "ports (init_db_logic 0) 1 = Some (seed_row ''Port X'' 10000 5000 0)"
    by (simp_all add: init_db_logic_def)
  have cols: "sched_type ?s = ''vessel-to-port''" "port_id ?s = Some 1" "quantity ?s = 5000"
    by (simp_all add: seed_schedule_def)
  have ok: "success (fst ?r)"
    by (simp add: eval_defs response_defs)
  have r: "?r = (fst ?r, snd ?r)" by simp
  have sched': "schedules example_db 7 = Some ?s'"
    by (simp add: example_db_def)
  have cols': "sched_type ?s' = ''vessel-to-port''" "port_id ?s' = None"
    by (simp_all add: created_schedule_def)
  have ok': "success (fst ?r')"
    by (simp add: eval_defs response_defs)
  have r': "?r' = (fst ?r', snd ?r')" by simp
  from complete_vessel_to_port [OF sched cols(1) r ok] sched port ok cols
  have first: "ports (snd ?r) = (ports (init_db_logic 0))(1 \<mapsto> seed_row ''Port X'' 10000 10000 0)
      \<and> plants (snd ?r) = plants (init_db_logic 0)
      \<and> map_option status (schedules (snd ?r) 1) = Some ''completed''"
    by (simp add: seed_row_def)
  from complete_vessel_to_port [OF sched' cols'(1) r' ok'] cols'
  have second: "ports (snd ?r') = ports example_db \<and> plants (snd ?r') = plants example_db
      \<and> schedules (snd ?r') 7 = Some (created_schedule ''vessel-to-port'' None None 300 ''completed'')"
    by (simp add: created_schedule_def)
  from first second sched port ok sched' ok' show ?thesis
    by (simp add: seed_row_def seed_schedule_def)
qed

subsection \<open>C5\<close>

text \<open>
  Claim C5, as amended (an unknown schedule id gives NotFound). The store is left as it
  was in every case. For a caller who may edit, with the lookup not raising, the answer
  is NotFound when the requested status is one of the five recognized values, and
  InvalidStatus otherwise: the status check comes first.
\<close>

theorem unknown_schedule:
  assumes "schedules db sid = None"
  shows "snd (update_schedule_status fails session js sid db) = db
     \<and> (session ''user'' \<noteq> None \<and> can_edit_data (session ''role'') \<and> \<not> fails SelectSchedule
        \<longrightarrow> fst (update_schedule_status fails session js sid db)
              = (if js \<in> set (map Some statuses) then not_found else invalid_status))"
  using assms by (cases "session ''user''") (simp_all add: handler_cases)

theorem unknown_schedule_witness:
  "schedules (init_db_logic 0) 99 = None
   \<and> update_schedule_status no_fault manager_session (Some ''delayed'') 99 (init_db_logic 0)
       = (not_found, init_db_logic 0)
   \<and> update_schedule_status no_fault manager_session (Some ''bogus'') 99 (init_db_logic 0)
       = (invalid_status, init_db_logic 0)"
proof -
  have sched: "schedules (init_db_logic 0) 99 = None"
    by (simp add: init_db_logic_def)
  have session: "manager_session ''user'' \<noteq> None" "can_edit_data (manager_session ''role'')"
    "\<not> no_fault SelectSchedule"
    by (simp_all add: manager_session_def can_edit_data_def no_fault_def)
  note unknown =
    unknown_schedule [where fails = no_fault and session = manager_session, OF sched]
  from unknown [of "Some ''delayed''"] unknown [of "Some ''bogus''"] sched session
  show ?thesis
    by (simp add: statuses_def prod_eq_iff)
qed

text \<open>
  Claim C5 as stated fails: schedule 99 does not exist in the seeded store, and the
  request for the unrecognized status \<^verbatim>\<open>bogus\<close> is answered with InvalidStatus, not
  NotFound.
\<close>

theorem unknown_invalid_status_counterexample:
  "schedules (init_db_logic 0) 99 = None
   \<and> fst (update_schedule_status no_fault manager_session (Some ''bogus'') 99 (init_db_logic 0))
       = invalid_status
   \<and> invalid_status \<noteq> not_found"
  by (simp add: eval_defs response_defs)

subsection \<open>C6\<close>

text \<open>
  Claim C6, as amended (stock stays within \<open>0 \<le> current_stock \<le> capacity\<close>). The
  handler checks no bound. When the request is a completion, the bound is kept provided
  the values the completion would write fit (\<open>completion_fits\<close>): for vessel-to-port
  the port stock plus Q, for port-to-plant the port stock minus Q and the plant stock
  plus Q. A request for any other status needs no condition. This holds whatever the
  session and the faults: apart from the stock statements of a completion, no statement
  of the handler writes stock.
\<close>

theorem bounded_preserved:
  assumes bounded: "stock_bounded db"
    and fit: "js = Some ''completed'' \<longrightarrow> (\<forall>s. schedules db sid = Some s \<longrightarrow> completion_fits db s)"
  shows "stock_bounded (snd (update_schedule_status fails session js sid db))"
proof -
  have step: "stock_bounded (committed c)"
    if sched: "schedules db sid = Some s" and valid: "js \<in> set (map Some statuses)"
      and c: "write_transition fails u (the js) sid s (get_db db) = Raised c
              \<or> write_transition fails u (the js) sid s (get_db db) = Returned c"
    for s u c
  proof (cases "the js = ''completed''")
    case True
    with valid have js: "js = Some ''completed''" by auto
    with fit sched have fits: "completion_fits (pending (get_db db)) s"
      by (simp add: get_db_def)
    from bounded have b: "stock_bounded (pending (get_db db))"
      by (simp add: get_db_def)
    from write_transition_completed [OF sched, of fails u] c True
    have "(ports (committed c) = ports db \<and> plants (committed c) = plants db)
        \<or> (\<exists>c1. apply_stock fails s (get_db db) = Returned c1
              \<and> ports (committed c) = ports (pending c1)
              \<and> plants (committed c) = plants (pending c1))"
      by auto
    then show ?thesis
    proof
      assume "ports (committed c) = ports db \<and> plants (committed c) = plants db"
      with bounded show ?thesis by (simp add: stock_bounded_def)
    next
      assume "\<exists>c1. apply_stock fails s (get_db db) = Returned c1
              \<and> ports (committed c) = ports (pending c1)
              \<and> plants (committed c) = plants (pending c1)"
      then obtain c1 where "apply_stock fails s (get_db db) = Returned c1"
        and eq: "ports (committed c) = ports (pending c1)"
          "plants (committed c) = plants (pending c1)"
        by blast
      from apply_stock_bounded [OF this(1) b fits] eq show ?thesis
        by (simp add: stock_bounded_def)
    qed
  next
    case False
    from write_transition_other [OF False sched, of fails u] c
    have "ports (committed c) = ports db \<and> plants (committed c) = plants db"
      by auto
    with bounded show ?thesis by (simp add: stock_bounded_def)
  qed
  from handler_state [of fails session js sid db] show ?thesis
  proof
    assume "snd (update_schedule_status fails session js sid db) = db"
    with bounded show ?thesis by simp
  next
    assume "\<exists>s u c. schedules db sid = Some s \<and> js \<in> set (map Some statuses)
      \<and> (write_transition fails u (the js) sid s (get_db db) = Raised c
         \<or> write_transition fails u (the js) sid s (get_db db) = Returned c)
      \<and> snd (update_schedule_status fails session js sid db) = committed c"
    then obtain s u c where "schedules db sid = Some s" and "js \<in> set (map Some statuses)"
      and "write_transition fails u (the js) sid s (get_db db) = Raised c
         \<or> write_transition fails u (the js) sid s (get_db db) = Returned c"
      and "snd (update_schedule_status fails session js sid db) = committed c"
      by blast
    with step [of s u c] show ?thesis by simp
  qed
qed

theorem bounded_preserved_witness:
  "stock_bounded (init_db_logic 0)
   \<and> completion_fits (init_db_logic 0)
        (seed_schedule ''vessel-to-port'' (Some 1) (Some 1) None (Some 1) None 5000 (0 + 5)
           ''scheduled'' 0)
   \<and> stock_bounded (snd (update_schedule_status no_fault manager_session (Some ''completed'') 1
        (init_db_logic 0)))"
proof -
  let ?s = "seed_schedule ''vessel-to-port'' (Some 1) (Some 1) None (Some 1) None 5000 (0 + 5)
              ''scheduled'' 0"
  have before: "stock_bounded (init_db_logic 0)"
    by (simp add: stock_bounded_def table_bounded_def within_capacity_def init_db_logic_def
        seed_row_def)
  have fit: "completion_fits (init_db_logic 0) ?s"
    by (simp add: completion_fits_def fits_def init_db_logic_def seed_row_def seed_schedule_def)
  have sched: "schedules (init_db_logic 0) 1 = Some ?s"
    by (simp add: init_db_logic_def)
  with fit have "Some ''completed'' = Some ''completed'' \<longrightarrow>
      (\<forall>s. schedules (init_db_logic 0) 1 = Some s \<longrightarrow> completion_fits (init_db_logic 0) s)"
    by simp
  from bounded_preserved [OF before this] before fit show ?thesis
    by simp
qed

text \<open>
  Claim C6 as stated fails: the seeded store is within its bounds, and completing the
  seeded schedule 3 (vessel-to-port, 7500, Port Y at 8000 of 15000) succeeds and leaves
  Port Y at 15500.
\<close>

theorem stock_bound_counterexample:
  "stock_bounded (init_db_logic 0)
   \<and> fst (update_schedule_status no_fault manager_session (Some ''completed'') 3
          (init_db_logic 0)) = updated 3 ''completed''
   \<and> map_option current_stock
        (ports (snd (update_schedule_status no_fault manager_session (Some ''completed'') 3
          (init_db_logic 0))) 2) = Some 15500
   \<and> map_option capacity
        (ports (snd (update_schedule_status no_fault manager_session (Some ''completed'') 3
          (init_db_logic 0))) 2) = Some 15000
   \<and> \<not> stock_bounded (snd (update_schedule_status no_fault manager_session (Some ''completed'') 3
          (init_db_logic 0)))"
proof -
  let ?db' = "snd (update_schedule_status no_fault manager_session (Some ''completed'') 3
          (init_db_logic 0))"
  have before: "stock_bounded (init_db_logic 0)"
    by (simp add: stock_bounded_def table_bounded_def within_capacity_def init_db_logic_def
        seed_row_def)
  have resp: "fst (update_schedule_status no_fault manager_session (Some ''completed'') 3
          (init_db_logic 0)) = updated 3 ''completed''"
    by (simp add: eval_defs)
  have row: "ports ?db' 2 = Some (seed_row ''Port Y'' 15000 15500 0)"
    by (simp add: eval_defs)
  have "\<not> within_capacity (seed_row ''Port Y'' 15000 15500 0)"
    by (simp add: within_capacity_def seed_row_def)
  with row have "\<not> table_bounded (ports ?db')"
    unfolding table_bounded_def by blast
  with before resp row show ?thesis
    by (simp add: stock_bounded_def seed_row_def)
qed

subsection \<open>C8\<close>

text \<open>
  Claim C8 (a transition of a non-terminal schedule to \<^verbatim>\<open>scheduled\<close>, \<^verbatim>\<open>in-progress\<close>,
  \<^verbatim>\<open>delayed\<close> or \<^verbatim>\<open>canceled\<close> writes the status field only). Whatever the faults, the
  port and plant tables are unchanged; when the request succeeds the schedule table is
  the old one with the status field of this schedule written, every other field and
  every other schedule as before, and when it does not succeed the schedule table is
  unchanged. A caller who may edit succeeds when no statement raises. (The request also
  appends its activity record.)
\<close>

theorem other_status:
  assumes sched: "schedules db sid = Some s"
    and "status s \<notin> set [''completed'', ''canceled'']"
    and ns: "ns \<in> set [''scheduled'', ''in-progress'', ''delayed'', ''canceled'']"
    and res: "update_schedule_status fails session (Some ns) sid db = (resp, db')"
  shows "ports db' = ports db \<and> plants db' = plants db
     \<and> (if success resp then schedules db' = (schedules db)(sid \<mapsto> s\<lparr>status := ns\<rparr>)
         else schedules db' = schedules db)
     \<and> (session ''user'' \<noteq> None \<and> can_edit_data (session ''role'')
          \<and> \<not> fails SelectSchedule \<and> \<not> fails InsertActivity \<and> \<not> fails CommitActivity
          \<and> \<not> fails UpdateScheduleStatus \<and> \<not> fails CommitTransaction
        \<longrightarrow> success resp)"
proof (cases "session ''user''")
  case None
  with res show ?thesis by (auto simp: handler_cases response_defs)
next
  case (Some u)
  from ns have completed: "ns \<noteq> ''completed''" and valid: "Some ns \<in> set (map Some statuses)"
    by (auto simp: statuses_def)
  have frame: "ports db' = ports db \<and> plants db' = plants db
     \<and> (if success resp then schedules db' = (schedules db)(sid \<mapsto> s\<lparr>status := ns\<rparr>)
         else schedules db' = schedules db)"
    using write_transition_other [OF completed sched, of fails u] Some assms
    by (auto simp: handler_cases response_defs split: if_splits outcome.splits)
  have "success resp"
    if "can_edit_data (session ''role'')" and "\<not> fails SelectSchedule"
      and "\<not> fails InsertActivity" and "\<not> fails CommitActivity"
      and "\<not> fails UpdateScheduleStatus" and "\<not> fails CommitTransaction"
  proof -
    from that completed sched
    have "\<exists>c. write_transition fails u ns sid s (get_db db) = Returned c"
      by (simp add: write_transition_def log_activity_eq and_then_def cur_execute_def
          conn_commit_def update_status_def get_db_def)
    with that Some assms(1,2) valid res show ?thesis
      by (auto simp: handler_cases response_defs simp del: set_map)
  qed
  with frame show ?thesis by blast
qed

theorem other_status_witness:
  "map_option status (schedules (init_db_logic 0) 1) = Some ''scheduled''
   \<and> success (fst (update_schedule_status no_fault manager_session (Some ''in-progress'') 1
        (init_db_logic 0)))
   \<and> ports (snd (update_schedule_status no_fault manager_session (Some ''in-progress'') 1
        (init_db_logic 0))) = ports (init_db_logic 0)
   \<and> plants (snd (update_schedule_status no_fault manager_session (Some ''in-progress'') 1
        (init_db_logic 0))) = plants (init_db_logic 0)
   \<and> schedules (snd (update_schedule_status no_fault manager_session (Some ''in-progress'') 1
        (init_db_logic 0))) 1
       = Some (seed_schedule ''vessel-to-port'' (Some 1) (Some 1) None (Some 1) None 5000 (0 + 5)
           ''in-progress'' 0)"
proof -
  let ?r = "update_schedule_status no_fault manager_session (Some ''in-progress'') 1
              (init_db_logic 0)"
  let ?s = "seed_schedule ''vessel-to-port'' (Some 1) (Some 1) None (Some 1) None 5000 (0 + 5)
              ''scheduled'' 0"
  have sched: "schedules (init_db_logic 0) 1 = Some ?s"
    by (simp add: init_db_logic_def)
  have live: "status ?s \<notin> set [''completed'', ''canceled'']"
    by (simp add: seed_schedule_def)
  have ns: "''in-progress'' \<in> set [''scheduled'', ''in-progress'', ''delayed'', ''canceled'']"
    by simp
  have session: "manager_session ''user'' \<noteq> None" "can_edit_data (manager_session ''role'')"
    by (simp_all add: manager_session_def can_edit_data_def)
  have "?r = (fst ?r, snd ?r)" by simp
  from other_status [OF sched live ns this] session sched show ?thesis
    by (simp add: no_fault_def seed_schedule_def)
qed

subsection \<open>C9\<close>

text \<open>
  Claim C9 (the export rejects every data type but \<^verbatim>\<open>schedules\<close> and \<^verbatim>\<open>stock_levels\<close>
  before any query runs, and exports the table for those two). For another identifier
  no query text reaches the store: a logged-in caller gets the 400 answer, anyone else
  the redirect to the login page. For the two identifiers and a logged-in caller
  exactly one query runs, \<^verbatim>\<open>SELECT * FROM\<close> that table, and when the store answers it the
  body is the CSV text of the rows it returned, served as an attachment named after
  the table.
\<close>

theorem export_data_gate:
  "(data_type \<notin> set [''schedules'', ''stock_levels''] \<longrightarrow>
      export_data dict_writer store session data_type
        = (if session ''user'' = None then Redirect ''login''
           else Body ''Invalid data type'' 400 [], []))
   \<and> (data_type \<in> set [''schedules'', ''stock_levels''] \<and> session ''user'' \<noteq> None \<longrightarrow>
        snd (export_data dict_writer store session data_type) = [''SELECT * FROM '' @ data_type]
        \<and> (\<forall>data. store (''SELECT * FROM '' @ data_type) = Some data \<longrightarrow>
              fst (export_data dict_writer store session data_type)
                = Body (case data of [] \<Rightarrow> [] | first # _ \<Rightarrow> dict_writer (map fst first) data)
                    200
                    [(''Content-Type'', ''text/csv''),
                     (''Content-Disposition'',
                      ''attachment; filename='' @ data_type @ ''.csv'')]))"
  by (auto simp: export_data_def Let_def split: option.splits)

theorem export_data_gate_witness:
  "export_data example_writer example_store manager_session ''users''
     = (Body ''Invalid data type'' 400 [], [])
   \<and> export_data example_writer example_store manager_session ''schedules''
     = (Body (''id,status'' @ [CHR 0x0D, CHR 0x0A] @ ''1,scheduled'' @ [CHR 0x0D, CHR 0x0A])
          200
          [(''Content-Type'', ''text/csv''),
           (''Content-Disposition'', ''attachment; filename=schedules.csv'')],
        [''SELECT * FROM schedules''])"
proof -
  have user: "manager_session ''user'' \<noteq> None"
    by (simp add: manager_session_def)
  have rows: "example_store (''SELECT * FROM '' @ ''schedules'')
      = Some [[(''id'', ''1''), (''status'', ''scheduled'')]]"
    by (simp add: example_store_def)
  from export_data_gate [of "''users''" example_writer example_store manager_session]
    user
  have rejected: "export_data example_writer example_store manager_session ''users''
     = (Body ''Invalid data type'' 400 [], [])"
    by simp
  from export_data_gate [of "''schedules''" example_writer example_store manager_session]
    user rows
  have "snd (export_data example_writer example_store manager_session ''schedules'')
          = [''SELECT * FROM schedules'']
      \<and> fst (export_data example_writer example_store manager_session ''schedules'')
          = Body (example_writer [''id'', ''status''] [[(''id'', ''1''), (''status'', ''scheduled'')]])
              200
              [(''Content-Type'', ''text/csv''),
               (''Content-Disposition'', ''attachment; filename=schedules.csv'')]"
    by simp
  with rejected show ?thesis
    by (simp add: example_writer_def csv_record_def csv_field_def prod_eq_iff)
qed

subsection \<open>C10\<close>

text \<open>
  Claim C10 (a non-terminal schedule whose type is neither \<^verbatim>\<open>vessel-to-port\<close> nor
  \<^verbatim>\<open>port-to-plant\<close> can still be completed; no stock changes). For a caller who may
  edit and a store on which no statement raises, the request succeeds, the status is
  written, and the port and plant tables are unchanged.
\<close>

theorem unknown_type:
  assumes "schedules db sid = Some s" and "status s \<notin> set [''completed'', ''canceled'']"
    and "sched_type s \<notin> set [''vessel-to-port'', ''port-to-plant'']"
    and "session ''user'' = Some u" and "can_edit_data (session ''role'')"
    and "\<not> fails SelectSchedule" and "\<not> fails InsertActivity" and "\<not> fails CommitActivity"
    and "\<not> fails UpdateScheduleStatus" and "\<not> fails CommitTransaction"
  shows "fst (update_schedule_status fails session (Some ''completed'') sid db)
           = updated sid ''completed''
    \<and> ports (snd (update_schedule_status fails session (Some ''completed'') sid db)) = ports db
    \<and> plants (snd (update_schedule_status fails session (Some ''completed'') sid db)) = plants db
    \<and> schedules (snd (update_schedule_status fails session (Some ''completed'') sid db)) =
         (schedules db)(sid \<mapsto> s\<lparr>status := ''completed''\<rparr>)"
proof -
  have "''completed'' \<in> set statuses" by (simp add: statuses_def)
  moreover from assms(3) have "apply_stock fails s (get_db db) = Returned (get_db db)"
    by (rule apply_stock_other)
  ultimately show ?thesis
    using assms
    by (simp add: handler_cases write_transition_def log_activity_eq and_then_def cur_execute_def
        conn_commit_def update_status_def get_db_def)
qed

theorem unknown_type_witness:
  "schedules example_db 5
     = Some (created_schedule ''plant-to-port'' (Some 1) (Some 2) 100 ''delayed'')
   \<and> fst (update_schedule_status no_fault manager_session (Some ''completed'') 5 example_db)
       = updated 5 ''completed''
   \<and> ports (snd (update_schedule_status no_fault manager_session (Some ''completed'') 5
        example_db)) = ports example_db
   \<and> plants (snd (update_schedule_status no_fault manager_session (Some ''completed'') 5
        example_db)) = plants example_db
   \<and> schedules (snd (update_schedule_status no_fault manager_session (Some ''completed'') 5
        example_db)) 5
       = Some (created_schedule ''plant-to-port'' (Some 1) (Some 2) 100 ''completed'')"
proof -
  let ?s = "created_schedule ''plant-to-port'' (Some 1) (Some 2) 100 ''delayed''"
  have sched: "schedules example_db 5 = Some ?s"
    by (simp add: example_db_def)
  have live: "status ?s \<notin> set [''completed'', ''canceled'']"
    and other: "sched_type ?s \<notin> set [''vessel-to-port'', ''port-to-plant'']"
    by (simp_all add: created_schedule_def)
  have user: "manager_session ''user'' = Some ''manager@example.com''"
    and role: "can_edit_data (manager_session ''role'')"
    by (simp_all add: manager_session_def can_edit_data_def)
  have quiet: "\<not> no_fault SelectSchedule" "\<not> no_fault InsertActivity"
    "\<not> no_fault CommitActivity" "\<not> no_fault UpdateScheduleStatus"
    "\<not> no_fault CommitTransaction"
    by (simp_all add: no_fault_def)
  from unknown_type [where fails = no_fault and session = manager_session,
      OF sched live other user role quiet] sched
  show ?thesis
    by (simp add: created_schedule_def)
qed

end
